theory Spec2Isabelle
  imports Main
begin

section \<open>The generate command: data model\<close>

text \<open>
  The Go source of the command (\<^verbatim>\<open>package cmd\<close>: \<^verbatim>\<open>runGenerate\<close>,
  \<^verbatim>\<open>printKBOM\<close>, \<^verbatim>\<open>getWriter\<close>) is embedded below. Go strings are byte
  sequences; \<^typ>\<open>string\<close> is a list of bytes, so \<^verbatim>\<open>len\<close> is \<^const>\<open>length\<close>
  and \<^verbatim>\<open>s[:8]\<close> is \<^term>\<open>take 8 s\<close> when \<^term>\<open>8 \<le> length s\<close> (and a
  run-time panic otherwise).
\<close>

subsection \<open>Constants of the package\<close>

definition KSOCCompany :: string where "KSOCCompany = ''KSOC Labs''"
definition const_BOMFormat :: string where "const_BOMFormat = ''ksoc''"
definition const_SpecVersion :: string where "const_SpecVersion = ''0.1''"
definition StdOutput :: string where "StdOutput = ''stdout''"
definition FileOutput :: string where "FileOutput = ''file''"
definition JSONFormat :: string where "JSONFormat = ''json''"
definition YAMLFormat :: string where "YAMLFormat = ''yaml''"

subsection \<open>The flags of the command\<close>

text \<open>The package variables \<^verbatim>\<open>short\<close>, \<^verbatim>\<open>output\<close>, \<^verbatim>\<open>format\<close> and
  \<^verbatim>\<open>outPath\<close>, as resolved before \<^verbatim>\<open>runGenerate\<close> starts.\<close>

record Flags =
  short :: bool
  "output" :: string
  format :: string
  outPath :: string

subsection \<open>Errors\<close>

text \<open>
  \<open>External\<close> is an error value made outside this package (by the cluster client, by
  \<^verbatim>\<open>os.Create\<close>, by an encoder), named by its message. The two errors this package
  makes itself are \<^verbatim>\<open>fmt.Errorf("format %q is not supported", format)\<close> and
  \<^verbatim>\<open>fmt.Errorf("output %q is not supported", output)\<close>; each keeps the string it
  quotes. \<open>SliceBoundsPanic\<close> is the run-time panic of \<^verbatim>\<open>kbom.ID[:8]\<close> on an ID
  shorter than eight bytes.
\<close>

datatype error =
    External string
  | FormatNotSupported string
  | OutputNotSupported string
  | SliceBoundsPanic

subsection \<open>Time\<close>

text \<open>
  \<^verbatim>\<open>time.Time\<close> belongs to Go's standard library. \<^verbatim>\<open>Format\<close> prints the civil
  date and clock of the instant in its own location, so the record holds exactly what
  \<^verbatim>\<open>Year()\<close>, \<^verbatim>\<open>Month()\<close>, \<^verbatim>\<open>Day()\<close>, \<^verbatim>\<open>Hour()\<close>, \<^verbatim>\<open>Minute()\<close>
  and \<^verbatim>\<open>Second()\<close> return.
\<close>

record Time =
  Year :: int
  Month :: nat
  Day :: nat
  Hour :: nat
  Minute :: nat
  Second :: nat

definition digit_char :: "nat \<Rightarrow> char" where
  "digit_char d = ''0123456789'' ! d"

fun digits :: "nat \<Rightarrow> string" where
  "digits n = (if n < 10 then [digit_char n] else digits (n div 10) @ [digit_char (n mod 10)])"

declare digits.simps [simp del]

text \<open>The library's \<^verbatim>\<open>appendInt(b, x, width)\<close>: a minus sign for a negative value,
  then the decimal digits, padded with zeros on the left up to \<open>width\<close>.\<close>

definition appendInt :: "int \<Rightarrow> nat \<Rightarrow> string" where
  "appendInt x width =
     (let ds = digits (nat \<bar>x\<bar>)
      in (if x < 0 then ''-'' else '''') @ replicate (width - length ds) (CHR ''0'') @ ds)"

text \<open>\<^verbatim>\<open>t.Format("2006-01-02-15-04-05")\<close>: the layout's chunks are the four-digit
  year, the zero-padded month, day, hour, minute and second, with the hyphens between
  them copied as they are.\<close>

definition Format_2006_01_02_15_04_05 :: "Time \<Rightarrow> string" where
  "Format_2006_01_02_15_04_05 t =
     appendInt (Year t) 4 @ ''-'' @ appendInt (int (Month t)) 2 @ ''-'' @
     appendInt (int (Day t)) 2 @ ''-'' @ appendInt (int (Hour t)) 2 @ ''-'' @
     appendInt (int (Minute t)) 2 @ ''-'' @ appendInt (int (Second t)) 2"

subsection \<open>The document (package model)\<close>

text \<open>
  The struct declarations of \<^verbatim>\<open>model\<close> are not among the sources; the records have
  the fields the composite literal of \<^verbatim>\<open>runGenerate\<close> fills, in the literal's order.
  Location, node, image and resource descriptors are opaque to the command: they are the
  type parameters \<open>'l\<close>, \<open>'n\<close>, \<open>'i\<close> and \<open>'r\<close>.
\<close>

record Tool =
  Vendor :: string
  BuildTime :: string
  Name :: string
  Version :: string
  Commit :: string
  CommitTime :: string

record ('i, 'r) Resources =
  Images :: "'i list"
  Resources_Resources :: "'r list"

record ('l, 'n, 'i, 'r) Cluster =
  Location :: 'l
  CNIVersion :: string
  K8sVersion :: string
  CACertDigest :: string
  NodesCount :: int
  Nodes :: "'n list"
  Resources :: "('i, 'r) Resources"

record ('l, 'n, 'i, 'r) KBOM =
  ID :: string
  BOMFormat :: string
  SpecVersion :: string
  GeneratedAt :: Time
  GeneratedBy :: Tool
  Cluster :: "('l, 'n, 'i, 'r) Cluster"

subsection \<open>The collaborators\<close>

text \<open>
  The cluster client of package \<^verbatim>\<open>kube\<close> is not among the sources, so the outcomes of
  its five operations are parameters of a run: each is an error or a result,
  \<^verbatim>\<open>AllNodes\<close> and \<^verbatim>\<open>AllResources\<close> depending on the detail flag they are
  called with. A successful \<^verbatim>\<open>Location\<close> returns a location (the pointer the Go code
  dereferences is not nil), as the interface contract of the specification has it.
\<close>

record ('l, 'n, 'i, 'r) Client =
  k8s_Metadata :: "error + (string \<times> string)"
  k8s_AllNodes :: "bool \<Rightarrow> error + 'n list"
  k8s_Location :: "error + 'l"
  k8s_AllImages :: "error + 'i list"
  k8s_AllResources :: "bool \<Rightarrow> error + 'r list"

datatype Writer = Stdout | File string

text \<open>
  What else the command calls depends on the machine and the moment of the run, or is
  library code whose result the command hands on unread, or is build configuration; it
  is taken as parameters of a run:
  \<^item> \<open>NewClient\<close>: the outcome of \<^verbatim>\<open>kube.NewClient()\<close>;
  \<^item> \<open>uuid_New_String\<close>: the value of \<^verbatim>\<open>uuid.New().String()\<close>;
  \<^item> \<open>time_Now\<close>: the value of \<^verbatim>\<open>time.Now()\<close>;
  \<^item> \<open>config_*\<close>: the variables of package \<^verbatim>\<open>config\<close>;
  \<^item> \<open>os_Create\<close>: whether \<^verbatim>\<open>os.Create\<close> fails on a path (\<open>None\<close>: it creates or
    truncates the file);
  \<^item> \<open>json_Encode prefix indent v\<close>: an encoder made by \<^verbatim>\<open>json.NewEncoder\<close>, set up by
    \<^verbatim>\<open>SetIndent(prefix, indent)\<close>, encoding \<open>v\<close>: the bytes it hands to its writer and
    the error it returns, if any;
  \<^item> \<open>yaml_Encode v\<close>: the same for \<^verbatim>\<open>yaml.NewEncoder\<close>.
\<close>

record ('l, 'n, 'i, 'r) Env =
  NewClient :: "error + ('l, 'n, 'i, 'r) Client"
  uuid_New_String :: string
  time_Now :: Time
  config_BuildTime :: string
  config_AppName :: string
  config_AppVersion :: string
  config_LastCommitHash :: string
  config_LastCommitTime :: string
  os_Create :: "string \<Rightarrow> error option"
  json_Encode :: "string \<Rightarrow> string \<Rightarrow> ('l, 'n, 'i, 'r) KBOM \<Rightarrow> string \<times> error option"
  yaml_Encode :: "('l, 'n, 'i, 'r) KBOM \<Rightarrow> string \<times> error option"

subsection \<open>The world a run acts on\<close>

text \<open>
  \<open>out\<close> holds the bytes written to standard output, \<open>out_closed\<close> whether the
  standard output stream has been closed, \<open>fs\<close> the files by path with their contents,
  and \<open>trace\<close> every call that reaches outside the package, in the order the code makes
  them.
\<close>

datatype event =
    EvNewClient
  | EvMetadata
  | EvAllNodes bool
  | EvLocation
  | EvAllImages
  | EvAllResources bool
  | EvNewUUID
  | EvNow
  | EvCreate string
  | EvWrite Writer string
  | EvClose Writer

record World =
  out :: string
  out_closed :: bool
  fs :: "string \<rightharpoonup> string"
  trace :: "event list"

definition log :: "event \<Rightarrow> World \<Rightarrow> World" where
  "log e w = w\<lparr>trace := trace w @ [e]\<rparr>"

text \<open>\<^verbatim>\<open>os.Create\<close> succeeding: the file exists afterwards and is empty.\<close>

definition create_file :: "string \<Rightarrow> World \<Rightarrow> World" where
  "create_file p w = log (EvCreate p) (w\<lparr>fs := (fs w)(p \<mapsto> '''')\<rparr>)"

text \<open>The bytes an encoder hands to its writer; an encoder that fails before it writes
  hands over none and makes no call.\<close>

definition write_bytes :: "Writer \<Rightarrow> string \<Rightarrow> World \<Rightarrow> World" where
  "write_bytes wr bs w =
     (if bs = [] then w
      else log (EvWrite wr bs)
        (case wr of
           Stdout \<Rightarrow> w\<lparr>out := out w @ bs\<rparr>
         | File p \<Rightarrow> w\<lparr>fs := (fs w)(p \<mapsto> (case fs w p of None \<Rightarrow> bs | Some c \<Rightarrow> c @ bs))\<rparr>))"

text \<open>\<^verbatim>\<open>writer.Close()\<close>; the error it may return is dropped by the \<^verbatim>\<open>defer\<close>.\<close>

definition close_writer :: "Writer \<Rightarrow> World \<Rightarrow> World" where
  "close_writer wr w =
     log (EvClose wr) (case wr of Stdout \<Rightarrow> w\<lparr>out_closed := True\<rparr> | File p \<Rightarrow> w)"

section \<open>The functions\<close>

subsection \<open>path.Join\<close>

text \<open>
  \<^verbatim>\<open>path.Join\<close> and \<^verbatim>\<open>path.Clean\<close> belong to Go's standard library and are pure
  functions of their arguments. \<^verbatim>\<open>Join\<close> returns the empty string when all its
  elements are empty; otherwise it puts a slash between the elements, leaving out the
  empty ones at the front, and cleans the result. \<^verbatim>\<open>Clean\<close> reads the path element
  by element (the pieces between slashes): an empty element and \<open>.\<close> are dropped;
  \<open>..\<close> removes the element kept last if there is one that is not itself \<open>..\<close>, is
  kept when the path is not rooted and there is none, and is dropped at the root; any
  other element is kept. The elements kept are written out with single slashes, after
  a leading slash for a rooted path; an empty result is \<open>.\<close>.
\<close>

fun path_elements :: "string \<Rightarrow> string \<Rightarrow> string list" where
  "path_elements cur [] = [cur]"
| "path_elements cur (c # cs) =
     (if c = CHR ''/'' then cur # path_elements [] cs else path_elements (cur @ [c]) cs)"

definition rooted :: "string \<Rightarrow> bool" where
  "rooted p = (case p of [] \<Rightarrow> False | c # cs \<Rightarrow> c = CHR ''/'')"

definition clean_step :: "bool \<Rightarrow> string list \<Rightarrow> string \<Rightarrow> string list" where
  "clean_step is_rooted kept e =
     (if e = [] \<or> e = ''.'' then kept
      else if e = ''..'' then
        (if kept \<noteq> [] \<and> last kept \<noteq> ''..'' then butlast kept
         else if \<not> is_rooted then kept @ [''..'']
         else kept)
      else kept @ [e])"

fun join_slash :: "string list \<Rightarrow> string" where
  "join_slash [] = []"
| "join_slash [e] = e"
| "join_slash (e # es) = e @ ''/'' @ join_slash es"

definition clean_elems :: "string \<Rightarrow> string list" where
  "clean_elems p = foldl (clean_step (rooted p)) [] (path_elements [] p)"

definition path_Clean :: "string \<Rightarrow> string" where
  "path_Clean p =
     (if p = [] then ''.''
      else if rooted p then ''/'' @ join_slash (clean_elems p)
      else if clean_elems p = [] then ''.''
      else join_slash (clean_elems p))"

text \<open>One round of the loop of \<^verbatim>\<open>Join\<close> over its elements.\<close>

definition join_step :: "string \<Rightarrow> string \<Rightarrow> string" where
  "join_step buf e =
     (if buf \<noteq> [] \<or> e \<noteq> [] then (if buf \<noteq> [] then buf @ ''/'' else buf) @ e else buf)"

definition path_Join :: "string \<Rightarrow> string \<Rightarrow> string" where
  "path_Join a b =
     (if length a + length b = 0 then []
      else path_Clean (join_step (join_step [] a) b))"

subsection \<open>getWriter\<close>

definition getWriter ::
  "('l, 'n, 'i, 'r) Env \<Rightarrow> Flags \<Rightarrow> ('l, 'n, 'i, 'r) KBOM \<Rightarrow> World \<Rightarrow> (error + Writer) \<times> World"
where
  "getWriter env fl kbom w =
     (if output fl = StdOutput then (Inr Stdout, w)
      else if output fl = FileOutput then
        (let formattedTime = Format_2006_01_02_15_04_05 (GeneratedAt kbom) in
         if length (ID kbom) < 8 then (Inl SliceBoundsPanic, w)
         else
           (let key = take 8 (ID kbom);
                key = (if length (CACertDigest (Cluster kbom)) > 8
                       then take 8 (CACertDigest (Cluster kbom)) else key);
                p = path_Join (outPath fl)
                      (''kbom-'' @ key @ ''-'' @ formattedTime @ ''.'' @ format fl)
            in case os_Create env p of
                 Some err \<Rightarrow> (Inl err, w)
               | None \<Rightarrow> (Inr (File p), create_file p w)))
      else (Inl (OutputNotSupported (output fl)), w))"

subsection \<open>printKBOM\<close>

text \<open>The deferred \<^verbatim>\<open>writer.Close()\<close> is registered once \<^verbatim>\<open>getWriter\<close> has
  returned a writer, and runs on every return after that.\<close>

definition printKBOM ::
  "('l, 'n, 'i, 'r) Env \<Rightarrow> Flags \<Rightarrow> ('l, 'n, 'i, 'r) KBOM \<Rightarrow> World \<Rightarrow> error option \<times> World"
where
  "printKBOM env fl kbom w =
     (case getWriter env fl kbom w of
        (Inl err, w1) \<Rightarrow> (Some err, w1)
      | (Inr writer, w1) \<Rightarrow>
          (let (res, w2) =
             (if format fl = JSONFormat then
                (case json_Encode env '''' ''  '' kbom of
                   (bs, r) \<Rightarrow> (r, write_bytes writer bs w1))
              else if format fl = YAMLFormat then
                (case yaml_Encode env kbom of
                   (bs, r) \<Rightarrow> (r, write_bytes writer bs w1))
              else (Some (FormatNotSupported (format fl)), w1))
           in (res, close_writer writer w2)))"

subsection \<open>runGenerate\<close>

text \<open>\<^verbatim>\<open>runGenerate\<close> up to and including the composite literal that builds the
  document. Go evaluates the calls inside the literal in source order:
  \<^verbatim>\<open>uuid.New()\<close> first, \<^verbatim>\<open>time.Now()\<close> second.\<close>

definition runGenerate_kbom ::
  "('l, 'n, 'i, 'r) Env \<Rightarrow> Flags \<Rightarrow> World \<Rightarrow> (error + ('l, 'n, 'i, 'r) KBOM) \<times> World"
where
  "runGenerate_kbom env fl w0 =
     (let w1 = log EvNewClient w0 in
      case NewClient env of Inl err \<Rightarrow> (Inl err, w1) | Inr k8sClient \<Rightarrow>
     (let w2 = log EvMetadata w1 in
      case k8s_Metadata k8sClient of Inl err \<Rightarrow> (Inl err, w2) | Inr (k8sVersion, caCertDigest) \<Rightarrow>
     (let full = \<not> short fl;
          w3 = log (EvAllNodes full) w2 in
      case k8s_AllNodes k8sClient full of Inl err \<Rightarrow> (Inl err, w3) | Inr nodes \<Rightarrow>
     (let w4 = log EvLocation w3 in
      case k8s_Location k8sClient of Inl err \<Rightarrow> (Inl err, w4) | Inr loc \<Rightarrow>
     (let w5 = log EvAllImages w4 in
      case k8s_AllImages k8sClient of Inl err \<Rightarrow> (Inl err, w5) | Inr allImages \<Rightarrow>
     (let w6 = log (EvAllResources full) w5 in
      case k8s_AllResources k8sClient full of Inl err \<Rightarrow> (Inl err, w6) | Inr resources \<Rightarrow>
     (let w7 = log EvNewUUID w6;
          w8 = log EvNow w7;
          kbom = \<lparr>
            ID = uuid_New_String env,
            BOMFormat = const_BOMFormat,
            SpecVersion = const_SpecVersion,
            GeneratedAt = time_Now env,
            GeneratedBy = \<lparr>
              Vendor = KSOCCompany,
              BuildTime = config_BuildTime env,
              Name = config_AppName env,
              Version = config_AppVersion env,
              Commit = config_LastCommitHash env,
              CommitTime = config_LastCommitTime env\<rparr>,
            Cluster = \<lparr>
              Location = loc,
              CNIVersion = '''',
              K8sVersion = k8sVersion,
              CACertDigest = caCertDigest,
              NodesCount = int (length nodes),
              Nodes = nodes,
              Resources = \<lparr>
                Images = allImages,
                Resources_Resources = resources\<rparr>\<rparr>\<rparr>
      in (Inr kbom, w8))))))))"

definition runGenerate ::
  "('l, 'n, 'i, 'r) Env \<Rightarrow> Flags \<Rightarrow> World \<Rightarrow> error option \<times> World"
where
  "runGenerate env fl w0 =
     (case runGenerate_kbom env fl w0 of
        (Inl err, w) \<Rightarrow> (Some err, w)
      | (Inr kbom, w) \<Rightarrow> printKBOM env fl kbom w)"

section \<open>A concrete run\<close>

text \<open>
  A cluster with three nodes, five images and ten resources, used to evaluate the
  functions on concrete inputs. The descriptors are strings here; the short descriptors
  carry a name only.
\<close>

definition ex_client :: "(string, string, string, string) Client" where
  "ex_client = \<lparr>
     k8s_Metadata = Inr (''v1.27.3'', ''abcdef1234567890''),
     k8s_AllNodes = (\<lambda>full. Inr (if full
        then [''node-a amd64 8cpu'', ''node-b amd64 8cpu'', ''node-c arm64 4cpu'']
        else [''node-a'', ''node-b'', ''node-c''])),
     k8s_Location = Inr ''aws eu-west-1'',
     k8s_AllImages = Inr [''img1'', ''img2'', ''img3'', ''img4'', ''img5''],
     k8s_AllResources = (\<lambda>full. Inr (replicate 10 (if full then ''pod full'' else ''pod'')))\<rparr>"

definition ex_time :: Time where
  "ex_time = \<lparr>Year = 2024, Month = 1, Day = 2, Hour = 3, Minute = 4, Second = 5\<rparr>"

definition ex_env :: "(string, string, string, string) Env" where
  "ex_env = \<lparr>
     NewClient = Inr ex_client,
     uuid_New_String = ''123e4567-e89b-42d3-a456-426614174000'',
     time_Now = ex_time,
     config_BuildTime = ''2023-05-01'',
     config_AppName = ''kbom'',
     config_AppVersion = ''0.1.0'',
     config_LastCommitHash = ''0a1b2c3'',
     config_LastCommitTime = ''2023-04-30'',
     os_Create = (\<lambda>p. None),
     json_Encode = (\<lambda>prefix indent v. (''{'' @ indent @ ID v @ ''}'', None)),
     yaml_Encode = (\<lambda>v. (''id: '' @ ID v, None))\<rparr>"

definition ex_flags :: Flags where
  "ex_flags = \<lparr>short = False, output = ''stdout'', format = ''json'', outPath = ''out''\<rparr>"

definition ex_world :: World where
  "ex_world = \<lparr>out = [], out_closed = False, fs = Map.empty, trace = []\<rparr>"

text \<open>The document the short run on this cluster builds.\<close>

definition ex_kbom_short :: "(string, string, string, string) KBOM" where
  "ex_kbom_short = \<lparr>
     ID = ''123e4567-e89b-42d3-a456-426614174000'',
     BOMFormat = ''ksoc'',
     SpecVersion = ''0.1'',
     GeneratedAt = ex_time,
     GeneratedBy = \<lparr>Vendor = ''KSOC Labs'', BuildTime = ''2023-05-01'', Name = ''kbom'',
       Version = ''0.1.0'', Commit = ''0a1b2c3'', CommitTime = ''2023-04-30''\<rparr>,
     Cluster = \<lparr>Location = ''aws eu-west-1'', CNIVersion = [], K8sVersion = ''v1.27.3'',
       CACertDigest = ''abcdef1234567890'', NodesCount = 3,
       Nodes = [''node-a'', ''node-b'', ''node-c''],
       Resources = \<lparr>Images = [''img1'', ''img2'', ''img3'', ''img4'', ''img5''],
         Resources_Resources = replicate 10 ''pod''\<rparr>\<rparr>\<rparr>"

definition ex_client_no_location :: "(string, string, string, string) Client" where
  "ex_client_no_location = ex_client\<lparr>k8s_Location := Inl (External ''location lookup failed'')\<rparr>"

definition ex_client_no_metadata :: "(string, string, string, string) Client" where
  "ex_client_no_metadata = ex_client\<lparr>k8s_Metadata := Inl (External ''connection refused'')\<rparr>"

definition ex_client_no_nodes :: "(string, string, string, string) Client" where
  "ex_client_no_nodes = ex_client\<lparr>k8s_AllNodes := (\<lambda>full. Inl (External ''connection refused''))\<rparr>"

text \<open>The same collaborators with a JSON encoder that fails before it writes.\<close>

definition ex_env_encode_fails :: "(string, string, string, string) Env" where
  "ex_env_encode_fails =
     ex_env\<lparr>json_Encode := (\<lambda>prefix indent v. ([], Some (External ''json: unsupported value'')))\<rparr>"

section \<open>What the statements below observe\<close>

text \<open>The events that touch a sink: creating a file, writing, closing.\<close>

fun is_sink_event :: "event \<Rightarrow> bool" where
  "is_sink_event (EvCreate p) = True"
| "is_sink_event (EvWrite wr bs) = True"
| "is_sink_event (EvClose wr) = True"
| "is_sink_event _ = False"

text \<open>All bytes written in a trace, in order, whatever the writer.\<close>

fun written :: "event list \<Rightarrow> string" where
  "written [] = []"
| "written (EvWrite wr bs # es) = bs @ written es"
| "written (e # es) = written es"

text \<open>The errors of the five collection calls in the order \<^verbatim>\<open>runGenerate\<close> makes them
  (\<open>None\<close> for a call that succeeds), and the first error of such a list.\<close>

definition err_of :: "error + 'a \<Rightarrow> error option" where
  "err_of r = (case r of Inl e \<Rightarrow> Some e | Inr v \<Rightarrow> None)"

definition collection_errors :: "('l, 'n, 'i, 'r) Client \<Rightarrow> bool \<Rightarrow> error option list" where
  "collection_errors c full =
     [err_of (k8s_Metadata c), err_of (k8s_AllNodes c full), err_of (k8s_Location c),
      err_of (k8s_AllImages c), err_of (k8s_AllResources c full)]"

fun first_failure :: "error option list \<Rightarrow> error option" where
  "first_failure [] = None"
| "first_failure (None # rs) = first_failure rs"
| "first_failure (Some e # rs) = Some e"

subsection \<open>The file name as the specification words it\<close>

text \<open>
  The specification's rule for the file name, written independently of \<^const>\<open>getWriter\<close>:
  \<open>kbom-<fingerprint8>-<timestamp>.<ext>\<close>, the fingerprint being the first eight
  characters of the CA certificate digest if its length exceeds eight and of the id
  otherwise, the timestamp being \<open>YYYY-MM-DD-HH-MM-SS\<close> in fixed-width decimal fields.
\<close>

definition spec_fingerprint8 :: "string \<Rightarrow> string \<Rightarrow> string" where
  "spec_fingerprint8 caCertDigest id' =
     (if length caCertDigest > 8 then take 8 caCertDigest else take 8 id')"






section \<open>Auxiliary facts\<close>

lemmas ex_defs = ex_env_def ex_client_def ex_flags_def ex_world_def ex_time_def

lemmas const_defs = StdOutput_def FileOutput_def JSONFormat_def YAMLFormat_def
  const_BOMFormat_def const_SpecVersion_def KSOCCompany_def

subsection \<open>Decimal fields\<close>











subsection \<open>getWriter, case by case\<close>

lemma output_consts_distinct: "StdOutput \<noteq> FileOutput"
  by (simp add: StdOutput_def FileOutput_def)

lemma getWriter_file:
  assumes "output fl = FileOutput" and "8 \<le> length (ID kbom)"
  shows "getWriter env fl kbom w =
     (case os_Create env (path_Join (outPath fl)
             (''kbom-'' @ spec_fingerprint8 (CACertDigest (Cluster kbom)) (ID kbom) @ ''-'' @
              Format_2006_01_02_15_04_05 (GeneratedAt kbom) @ ''.'' @ format fl)) of
        Some err \<Rightarrow> (Inl err, w)
      | None \<Rightarrow>
          (Inr (File (path_Join (outPath fl)
             (''kbom-'' @ spec_fingerprint8 (CACertDigest (Cluster kbom)) (ID kbom) @ ''-'' @
              Format_2006_01_02_15_04_05 (GeneratedAt kbom) @ ''.'' @ format fl))),
           create_file (path_Join (outPath fl)
             (''kbom-'' @ spec_fingerprint8 (CACertDigest (Cluster kbom)) (ID kbom) @ ''-'' @
              Format_2006_01_02_15_04_05 (GeneratedAt kbom) @ ''.'' @ format fl)) w))"
  using assms output_consts_distinct
  by (simp add: getWriter_def spec_fingerprint8_def Let_def split: option.splits)

lemma written_append: "written (es @ es') = written es @ written es'"
  by (induction es rule: written.induct) simp_all

subsection \<open>Cleaned paths\<close>

lemmas path_defs = path_Clean_def path_Join_def join_step_def clean_elems_def clean_step_def
  rooted_def

text \<open>The results the library documents for \<^verbatim>\<open>Clean\<close> and \<^verbatim>\<open>Join\<close>.\<close>

lemma path_Clean_examples:
  "path_Clean '''' = ''.''"
  "path_Clean ''abc'' = ''abc''"
  "path_Clean ''abc/def'' = ''abc/def''"
  "path_Clean ''.'' = ''.''"
  "path_Clean ''..'' = ''..''"
  "path_Clean ''../..'' = ''../..''"
  "path_Clean ''../../abc'' = ''../../abc''"
  "path_Clean ''/abc'' = ''/abc''"
  "path_Clean ''/'' = ''/''"
  "path_Clean ''abc/'' = ''abc''"
  "path_Clean ''./'' = ''.''"
  "path_Clean ''../'' = ''..''"
  "path_Clean ''/abc/'' = ''/abc''"
  "path_Clean ''abc//def//ghi'' = ''abc/def/ghi''"
  "path_Clean ''//abc'' = ''/abc''"
  "path_Clean ''//abc//'' = ''/abc''"
  "path_Clean ''abc/./def'' = ''abc/def''"
  "path_Clean ''/./abc/def'' = ''/abc/def''"
  "path_Clean ''abc/.'' = ''abc''"
  "path_Clean ''abc/def/ghi/../jkl'' = ''abc/def/jkl''"
  "path_Clean ''abc/def/../ghi/../jkl'' = ''abc/jkl''"
  "path_Clean ''abc/def/..'' = ''abc''"
  "path_Clean ''abc/def/../..'' = ''.''"
  "path_Clean ''/abc/def/../..'' = ''/''"
  "path_Clean ''abc/def/../../..'' = ''..''"
  "path_Clean ''/abc/def/../../..'' = ''/''"
  "path_Clean ''abc/def/../../../ghi/jkl/../../../mno'' = ''../../mno''"
  "path_Clean ''abc/./../def'' = ''def''"
  "path_Clean ''abc//./../def'' = ''def''"
  "path_Clean ''abc/../../././../def'' = ''../../def''"
  by (simp_all add: path_defs)

lemma path_Join_examples:
  "path_Join '''' '''' = ''''"
  "path_Join ''a'' ''b'' = ''a/b''"
  "path_Join ''a'' '''' = ''a''"
  "path_Join '''' ''b'' = ''b''"
  "path_Join ''/'' ''a'' = ''/a''"
  "path_Join ''/'' '''' = ''/''"
  "path_Join ''a/'' ''b'' = ''a/b''"
  "path_Join ''a/'' '''' = ''a''"
  "path_Join ''.'' ''kbom-x.json'' = ''kbom-x.json''"
  "path_Join ''out'' ''kbom-abcdef12-2024-01-02-03-04-05.a/../../b'' = ''b''"
  by (simp_all add: path_defs)

lemma path_elements_slash:
  "path_elements cur (xs @ CHR ''/'' # ys) = path_elements cur xs @ path_elements [] ys"
  by (induction xs arbitrary: cur) simp_all

lemma path_elements_no_slash:
  "CHR ''/'' \<notin> set ys \<Longrightarrow> path_elements cur ys = [cur @ ys]"
  by (induction ys arbitrary: cur) auto

lemma join_slash_snoc:
  "join_slash (es @ [e]) = (if es = [] then e else join_slash es @ ''/'' @ e)"
  by (induction es rule: join_slash.induct) simp_all

lemma rooted_append: "p \<noteq> [] \<Longrightarrow> rooted (p @ q) = rooted p"
  by (cases p) (simp_all add: rooted_def)

lemma clean_step_real:
  "e \<noteq> [] \<Longrightarrow> e \<noteq> ''.'' \<Longrightarrow> e \<noteq> ''..'' \<Longrightarrow> clean_step r kept e = kept @ [e]"
  by (simp add: clean_step_def)

text \<open>Cleaning a path that ends in a slash and one real element: the element is kept
  as the last one.\<close>

lemma clean_elems_snoc:
  assumes "CHR ''/'' \<notin> set e" and "e \<noteq> []" and "e \<noteq> ''.''" and "e \<noteq> ''..''"
  shows "clean_elems (pfx @ ''/'' @ e) =
           foldl (clean_step (rooted (pfx @ ''/''))) [] (path_elements [] pfx) @ [e]"
proof -
  have r: "rooted (pfx @ ''/'' @ e) = rooted (pfx @ ''/'')"
    using rooted_append [of "pfx @ ''/''" e] by simp
  have "path_elements [] (pfx @ ''/'' @ e) = path_elements [] pfx @ [e]"
    using path_elements_slash [of "[]" pfx e] path_elements_no_slash [OF assms(1), of "[]"]
    by simp
  with r assms(2-4) show ?thesis
    by (simp add: clean_elems_def clean_step_real)
qed

lemma path_Clean_snoc:
  assumes "CHR ''/'' \<notin> set e" and "e \<noteq> []" and "e \<noteq> ''.''" and "e \<noteq> ''..''"
  shows "\<exists>d. path_Clean (pfx @ ''/'' @ e) = d @ e"
  using clean_elems_snoc [OF assms, of pfx]
  by (simp add: path_Clean_def join_slash_snoc)

lemma path_Clean_single:
  assumes "CHR ''/'' \<notin> set e" and "e \<noteq> []" and "e \<noteq> ''.''" and "e \<noteq> ''..''"
  shows "path_Clean e = e"
proof -
  from assms(1,2) have "\<not> rooted e"
    by (cases e) (auto simp: rooted_def)
  with assms show ?thesis
    by (simp add: path_Clean_def clean_elems_def path_elements_no_slash clean_step_real)
qed

lemma split_last_slash:
  "\<exists>q b. s = q @ b \<and> CHR ''/'' \<notin> set b \<and> (q = [] \<or> (\<exists>q'. q = q' @ ''/''))"
proof (induction s rule: rev_induct)
  case Nil
  then show ?case by simp
next
  case (snoc c s)
  show ?case
  proof (cases "c = CHR ''/''")
    case True
    have "s @ [c] = (s @ ''/'') @ []" using True by simp
    then show ?thesis by (metis empty_iff list.set(1))
  next
    case False
    from snoc obtain q b where "s = q @ b" "CHR ''/'' \<notin> set b" "q = [] \<or> (\<exists>q'. q = q' @ ''/'')"
      by blast
    with False have "s @ [c] = q @ (b @ [c]) \<and> CHR ''/'' \<notin> set (b @ [c]) \<and>
        (q = [] \<or> (\<exists>q'. q = q' @ ''/''))"
      by simp
    then show ?thesis by blast
  qed
qed

text \<open>A suffix without a slash that holds a hyphen stays the suffix of the cleaned
  path, whatever comes before it.\<close>

lemma path_Clean_keeps_suffix:
  assumes "CHR ''/'' \<notin> set t" and "CHR ''-'' \<in> set t"
  shows "\<exists>d. path_Clean (s @ t) = d @ t"
proof -
  obtain q b where s: "s = q @ b" and b: "CHR ''/'' \<notin> set b"
    and q: "q = [] \<or> (\<exists>q'. q = q' @ ''/'')"
    using split_last_slash [of s] by blast
  let ?e = "b @ t"
  have h: "CHR ''-'' \<in> set ?e"
    using assms(2) by simp
  have e: "CHR ''/'' \<notin> set ?e" "?e \<noteq> []" "?e \<noteq> ''.''" "?e \<noteq> ''..''"
  proof -
    show "CHR ''/'' \<notin> set ?e" using assms(1) b by simp
    show "?e \<noteq> []" using h by auto
    show "?e \<noteq> ''.''"
    proof
      assume "?e = ''.''"
      with h have "CHR ''-'' \<in> set ''.''" by simp
      then show False by simp
    qed
    show "?e \<noteq> ''..''"
    proof
      assume "?e = ''..''"
      with h have "CHR ''-'' \<in> set ''..''" by simp
      then show False by simp
    qed
  qed
  from q show ?thesis
  proof
    assume "q = []"
    with s path_Clean_single [OF e] show ?thesis by simp
  next
    assume "\<exists>q'. q = q' @ ''/''"
    then obtain q' where "q = q' @ ''/''" by blast
    with s path_Clean_snoc [OF e, of q'] show ?thesis by auto
  qed
qed

lemma path_Join_name:
  "b \<noteq> [] \<Longrightarrow> path_Join a b = path_Clean (if a = [] then b else a @ ''/'' @ b)"
  by (simp add: path_Join_def join_step_def)



subsection \<open>The timestamp holds no slash\<close>

lemma digit_char_range: "d < 10 \<Longrightarrow> digit_char d \<in> set ''0123456789''"
  unfolding digit_char_def by (rule nth_mem) simp

lemma digits_range: "set (digits n) \<subseteq> set ''0123456789''"
proof (induction n rule: digits.induct)
  case (1 n)
  show ?case
  proof (cases "n < 10")
    case True
    then show ?thesis
      using digit_char_range [of n] by (subst digits.simps) simp
  next
    case False
    have "n mod 10 < 10" by simp
    from digit_char_range [OF this] "1" [OF False] False show ?thesis
      by (subst digits.simps) simp
  qed
qed

lemma appendInt_no_slash: "CHR ''/'' \<notin> set (appendInt x width)"
  using digits_range [of "nat \<bar>x\<bar>"]
  by (auto simp: appendInt_def Let_def)

lemma Format_no_slash: "CHR ''/'' \<notin> set (Format_2006_01_02_15_04_05 t)"
  by (simp add: Format_2006_01_02_15_04_05_def appendInt_no_slash)

subsection \<open>The file created\<close>






subsection \<open>Some collection call fails\<close>

lemma any_collection_fails:
  "(\<exists>e. first_failure (collection_errors c full) = Some e) \<longleftrightarrow>
     isl (k8s_Metadata c) \<or> isl (k8s_AllNodes c full) \<or> isl (k8s_Location c) \<or>
     isl (k8s_AllImages c) \<or> isl (k8s_AllResources c full)"
  by (auto simp: collection_errors_def err_of_def split: sum.splits)

section \<open>The document\<close>

text \<open>
  Claim C1. Whenever \<^verbatim>\<open>runGenerate\<close> gets as far as building the document, the
  document's \<open>NodesCount\<close> is the length of its \<open>Nodes\<close>, and \<open>Nodes\<close> is the list
  \<^verbatim>\<open>AllNodes\<close> returned for the detail mode of the run, whatever that mode and however
  many nodes there are (none included).
\<close>

theorem nodesCount_eq_length_nodes:
  assumes "fst (runGenerate_kbom env fl w) = Inr kbom"
  shows "NodesCount (Cluster kbom) = int (length (Nodes (Cluster kbom))) \<and>
         (\<exists>c. NewClient env = Inr c \<and> k8s_AllNodes c (\<not> short fl) = Inr (Nodes (Cluster kbom)))"
  using assms
  by (auto simp: runGenerate_kbom_def Let_def split: sum.splits prod.splits)

theorem nodesCount_eq_length_nodes_witness:
  "fst (runGenerate_kbom ex_env (ex_flags\<lparr>short := True\<rparr>) ex_world) = Inr ex_kbom_short \<and>
   NodesCount (Cluster ex_kbom_short) = 3 \<and> length (Nodes (Cluster ex_kbom_short)) = 3"
proof -
  have run: "fst (runGenerate_kbom ex_env (ex_flags\<lparr>short := True\<rparr>) ex_world) = Inr ex_kbom_short"
    by (simp add: runGenerate_kbom_def ex_env_def ex_client_def ex_flags_def ex_kbom_short_def
        const_BOMFormat_def const_SpecVersion_def KSOCCompany_def)
  from nodesCount_eq_length_nodes [OF run] run show ?thesis
    by (simp add: ex_kbom_short_def)
qed

section \<open>Collection failures\<close>

text \<open>
  Claim C2. With a client at hand, if one of the five collection calls fails, then
  \<^verbatim>\<open>runGenerate\<close> returns the error of the first call that fails, and no sink is
  touched: standard output holds the bytes it held and is as open or closed as it was,
  the files are the files there were, and the run has added no create, write or close
  event. Nothing of a document is written anywhere.
\<close>

theorem collection_failure_aborts_before_sink:
  assumes client: "NewClient env = Inr c"
    and fails: "first_failure (collection_errors c (\<not> short fl)) = Some e"
  shows "fst (runGenerate env fl w) = Some e \<and>
         out (snd (runGenerate env fl w)) = out w \<and>
         out_closed (snd (runGenerate env fl w)) = out_closed w \<and>
         fs (snd (runGenerate env fl w)) = fs w \<and>
         filter is_sink_event (trace (snd (runGenerate env fl w))) =
           filter is_sink_event (trace w)"
  using assms
  by (auto simp: runGenerate_def runGenerate_kbom_def collection_errors_def err_of_def log_def
      Let_def split: sum.splits prod.splits)

theorem collection_failure_aborts_before_sink_witness:
  "fst (runGenerate (ex_env\<lparr>NewClient := Inr ex_client_no_location\<rparr>)
          (ex_flags\<lparr>output := ''file''\<rparr>) ex_world)
     = Some (External ''location lookup failed'') \<and>
   out (snd (runGenerate (ex_env\<lparr>NewClient := Inr ex_client_no_location\<rparr>)
          (ex_flags\<lparr>output := ''file''\<rparr>) ex_world)) = [] \<and>
   fs (snd (runGenerate (ex_env\<lparr>NewClient := Inr ex_client_no_location\<rparr>)
          (ex_flags\<lparr>output := ''file''\<rparr>) ex_world)) = Map.empty"
proof -
  have c: "NewClient (ex_env\<lparr>NewClient := Inr ex_client_no_location\<rparr>) = Inr ex_client_no_location"
    by simp
  have f: "first_failure (collection_errors ex_client_no_location
             (\<not> short (ex_flags\<lparr>output := ''file''\<rparr>)))
      = Some (External ''location lookup failed'')"
    by (simp add: collection_errors_def err_of_def ex_client_no_location_def ex_client_def)
  from collection_failure_aborts_before_sink [OF c f, of ex_world] show ?thesis
    by (simp add: ex_world_def)
qed

text \<open>
  Claim C7, as the code has it. The error \<^verbatim>\<open>runGenerate\<close> returns when the document is
  not built is the very error value the failing call returned
  (\<^verbatim>\<open>kube.NewClient\<close> or one of the five collection calls): \<^verbatim>\<open>return err\<close> adds no
  step name and wraps nothing.
\<close>

theorem collection_error_returned_verbatim:
  assumes "fst (runGenerate_kbom env fl w) = Inl e"
  shows "fst (runGenerate env fl w) = Some e \<and>
         (NewClient env = Inl e \<or>
          (\<exists>c. NewClient env = Inr c \<and>
             (k8s_Metadata c = Inl e \<or> k8s_AllNodes c (\<not> short fl) = Inl e \<or>
              k8s_Location c = Inl e \<or> k8s_AllImages c = Inl e \<or>
              k8s_AllResources c (\<not> short fl) = Inl e)))"
  using assms
  by (auto simp: runGenerate_def runGenerate_kbom_def log_def Let_def
      split: sum.splits prod.splits)

theorem collection_error_returned_verbatim_witness:
  "fst (runGenerate (ex_env\<lparr>NewClient := Inr ex_client_no_location\<rparr>) ex_flags ex_world)
     = Some (External ''location lookup failed'') \<and>
   k8s_Location ex_client_no_location = Inl (External ''location lookup failed'')"
proof -
  have r: "fst (runGenerate_kbom (ex_env\<lparr>NewClient := Inr ex_client_no_location\<rparr>) ex_flags ex_world)
      = Inl (External ''location lookup failed'')"
    by (simp add: runGenerate_kbom_def ex_client_no_location_def ex_client_def Let_def)
  from collection_error_returned_verbatim [OF r] show ?thesis
    by (simp add: ex_client_no_location_def)
qed

text \<open>
  Claim C7, as stated, fails: a client whose \<^verbatim>\<open>Metadata\<close> call is refused and a
  client whose \<^verbatim>\<open>AllNodes\<close> call is refused with the same cause make
  \<^verbatim>\<open>runGenerate\<close> return the same error value, which is that cause itself; the error
  does not tell the two steps apart.
\<close>

theorem error_names_step_counterexample:
  "fst (runGenerate (ex_env\<lparr>NewClient := Inr ex_client_no_metadata\<rparr>) ex_flags ex_world)
     = Some (External ''connection refused'') \<and>
   fst (runGenerate (ex_env\<lparr>NewClient := Inr ex_client_no_nodes\<rparr>) ex_flags ex_world)
     = Some (External ''connection refused'')"
  by (simp add: runGenerate_def runGenerate_kbom_def log_def ex_client_def
      ex_client_no_metadata_def ex_client_no_nodes_def)

section \<open>The order of the calls\<close>

text \<open>
  Claim C3, as the code has it. \<^verbatim>\<open>runGenerate\<close> generates the id and reads the clock
  while it builds the document, after the five collection calls have all succeeded: a
  run that builds the document has made, in this order, the client, the five collection
  calls, \<^verbatim>\<open>uuid.New()\<close> and \<^verbatim>\<open>time.Now()\<close>, and the document carries the two
  values they returned. A run that fails before has neither generated an id nor read the
  clock.
\<close>

theorem id_and_timestamp_follow_collection:
  "(case runGenerate_kbom env fl w of
      (Inr kbom, w') \<Rightarrow>
         trace w' = trace w @
           [EvNewClient, EvMetadata, EvAllNodes (\<not> short fl), EvLocation, EvAllImages,
            EvAllResources (\<not> short fl), EvNewUUID, EvNow] \<and>
         ID kbom = uuid_New_String env \<and> GeneratedAt kbom = time_Now env
    | (Inl err, w') \<Rightarrow>
         take (length (trace w)) (trace w') = trace w \<and>
         EvNewUUID \<notin> set (drop (length (trace w)) (trace w')) \<and>
         EvNow \<notin> set (drop (length (trace w)) (trace w')))"
  by (auto simp: runGenerate_kbom_def log_def Let_def split: sum.splits prod.splits)

theorem id_and_timestamp_follow_collection_witness:
  "(case runGenerate_kbom ex_env ex_flags ex_world of
      (Inr kbom, w') \<Rightarrow>
         ID kbom = ''123e4567-e89b-42d3-a456-426614174000'' \<and> length (trace w') = 8
    | (Inl err, w') \<Rightarrow> False)"
  using id_and_timestamp_follow_collection [where env = ex_env and fl = ex_flags and w = ex_world]
  by (simp add: runGenerate_kbom_def log_def ex_defs)

text \<open>
  Claim C3, as stated, fails: in the concrete run the five collection calls come before
  the id is generated and before the clock is read.
\<close>

theorem id_generated_before_collection_counterexample:
  "trace (snd (runGenerate_kbom ex_env ex_flags ex_world)) =
     [EvNewClient, EvMetadata, EvAllNodes True, EvLocation, EvAllImages, EvAllResources True,
      EvNewUUID, EvNow]"
  by (simp add: runGenerate_kbom_def log_def ex_defs)

section \<open>Output targets and formats\<close>

text \<open>
  Claim C9. If the output target is neither \<open>stdout\<close> nor \<open>file\<close>, \<^verbatim>\<open>getWriter\<close>
  returns the unsupported-output error and changes nothing, \<^verbatim>\<open>printKBOM\<close> returns that
  error and changes nothing, and the run fails: with the unsupported-output error once
  the document is built, and in any case without creating a file, writing a byte or
  touching a sink.
\<close>

theorem unsupported_output_creates_no_file:
  assumes "output fl \<noteq> StdOutput" and "output fl \<noteq> FileOutput"
  shows "getWriter env fl kbom w = (Inl (OutputNotSupported (output fl)), w) \<and>
         printKBOM env fl kbom w = (Some (OutputNotSupported (output fl)), w) \<and>
         fst (runGenerate env fl w) \<noteq> None \<and>
         (\<forall>k. fst (runGenerate_kbom env fl w) = Inr k \<longrightarrow>
              fst (runGenerate env fl w) = Some (OutputNotSupported (output fl))) \<and>
         fs (snd (runGenerate env fl w)) = fs w \<and>
         out (snd (runGenerate env fl w)) = out w \<and>
         filter is_sink_event (trace (snd (runGenerate env fl w))) =
           filter is_sink_event (trace w)"
  using assms
  by (auto simp: runGenerate_def runGenerate_kbom_def printKBOM_def getWriter_def log_def Let_def
      split: sum.splits prod.splits)

theorem unsupported_output_creates_no_file_witness:
  "fst (runGenerate ex_env (ex_flags\<lparr>output := ''s3''\<rparr>) ex_world)
     = Some (OutputNotSupported ''s3'') \<and>
   fs (snd (runGenerate ex_env (ex_flags\<lparr>output := ''s3''\<rparr>) ex_world)) = Map.empty"
proof -
  have s: "output (ex_flags\<lparr>output := ''s3''\<rparr>) \<noteq> StdOutput"
    and f: "output (ex_flags\<lparr>output := ''s3''\<rparr>) \<noteq> FileOutput"
    by (simp_all add: const_defs)
  have k: "\<exists>k. fst (runGenerate_kbom ex_env (ex_flags\<lparr>output := ''s3''\<rparr>) ex_world) = Inr k"
    by (simp add: runGenerate_kbom_def ex_env_def ex_client_def Let_def)
  have o: "fs ex_world = Map.empty" "output (ex_flags\<lparr>output := ''s3''\<rparr>) = ''s3''"
    by (simp_all add: ex_world_def)
  from unsupported_output_creates_no_file [OF s f, of ex_env _ ex_world] k o
  show ?thesis by auto
qed

text \<open>
  Claim C4. If the format is neither \<open>json\<close> nor \<open>yaml\<close>, \<^verbatim>\<open>printKBOM\<close> fails and no
  byte of a document reaches any sink: once \<^verbatim>\<open>getWriter\<close> has returned a writer the
  error is the unsupported-format error (and the writer is closed); when
  \<^verbatim>\<open>getWriter\<close> itself fails, its error is returned and nothing has changed. Standard
  output holds what it held and no write has been made. The files are unchanged, or, in
  file mode, \<^verbatim>\<open>os.Create\<close> has made one empty file before the format was looked at:
  the run's events are then the creation and the close of that file, in this order.
\<close>

theorem unsupported_format_writes_nothing:
  assumes "format fl \<noteq> JSONFormat" and "format fl \<noteq> YAMLFormat"
  shows "(\<forall>wr w1. getWriter env fl kbom w = (Inr wr, w1) \<longrightarrow>
            printKBOM env fl kbom w =
              (Some (FormatNotSupported (format fl)), close_writer wr w1)) \<and>
         (\<forall>err w1. getWriter env fl kbom w = (Inl err, w1) \<longrightarrow>
            printKBOM env fl kbom w = (Some err, w)) \<and>
         fst (printKBOM env fl kbom w) \<noteq> None \<and>
         out (snd (printKBOM env fl kbom w)) = out w \<and>
         written (trace (snd (printKBOM env fl kbom w))) = written (trace w) \<and>
         (fs (snd (printKBOM env fl kbom w)) = fs w \<or>
          (\<exists>p. output fl = FileOutput \<and> os_Create env p = None \<and>
               fs (snd (printKBOM env fl kbom w)) = (fs w)(p \<mapsto> []) \<and>
               trace (snd (printKBOM env fl kbom w)) =
                 trace w @ [EvCreate p, EvClose (File p)]))"
  using assms
  by (auto simp: printKBOM_def getWriter_def Let_def close_writer_def create_file_def log_def
      written_append split: if_splits option.splits)

theorem unsupported_format_writes_nothing_witness:
  "printKBOM ex_env (ex_flags\<lparr>format := ''xml''\<rparr>) ex_kbom_short ex_world =
     (Some (FormatNotSupported ''xml''), close_writer Stdout ex_world) \<and>
   out (snd (printKBOM ex_env (ex_flags\<lparr>format := ''xml''\<rparr>) ex_kbom_short ex_world)) = []"
proof -
  have j: "format (ex_flags\<lparr>format := ''xml''\<rparr>) \<noteq> JSONFormat"
    and y: "format (ex_flags\<lparr>format := ''xml''\<rparr>) \<noteq> YAMLFormat"
    by (simp_all add: const_defs)
  have g: "getWriter ex_env (ex_flags\<lparr>format := ''xml''\<rparr>) ex_kbom_short ex_world
      = (Inr Stdout, ex_world)"
    by (simp add: getWriter_def ex_flags_def const_defs)
  have o: "out (close_writer Stdout ex_world) = []"
    by (simp add: ex_world_def close_writer_def log_def)
  from unsupported_format_writes_nothing [OF j y, of ex_env ex_kbom_short ex_world] g o
  show ?thesis by simp
qed

section \<open>The file name\<close>



text \<open>
  Claim C10, as the code has it. In file mode, for every format that holds no slash,
  supported or not, the path of the file ends in the timestamp, a dot and the format
  string as it is. When \<^verbatim>\<open>os.Create\<close> succeeds that file is the writer and exists,
  empty; and when the format is neither \<open>json\<close> nor \<open>yaml\<close>, \<^verbatim>\<open>printKBOM\<close> returns
  the unsupported-format error and leaves the file behind, empty, under the name with
  the unsupported extension.
\<close>

theorem file_extension_is_format_verbatim:
  assumes "output fl = FileOutput" and "8 \<le> length (ID kbom)"
    and "CHR ''/'' \<notin> set (format fl)"
  shows "let p = path_Join (outPath fl)
                   (''kbom-'' @ spec_fingerprint8 (CACertDigest (Cluster kbom)) (ID kbom) @
                    ''-'' @ Format_2006_01_02_15_04_05 (GeneratedAt kbom) @ ''.'' @ format fl)
         in (\<exists>d. p = d @ ''-'' @ Format_2006_01_02_15_04_05 (GeneratedAt kbom) @ ''.'' @ format fl) \<and>
            (os_Create env p = None \<longrightarrow>
               getWriter env fl kbom w = (Inr (File p), create_file p w) \<and>
               fs (snd (getWriter env fl kbom w)) p = Some [] \<and>
               (format fl \<noteq> JSONFormat \<and> format fl \<noteq> YAMLFormat \<longrightarrow>
                  printKBOM env fl kbom w =
                    (Some (FormatNotSupported (format fl)),
                     close_writer (File p) (create_file p w)) \<and>
                  fs (snd (printKBOM env fl kbom w)) p = Some []))"
proof -
  let ?ts = "Format_2006_01_02_15_04_05 (GeneratedAt kbom)"
  let ?t = "''-'' @ ?ts @ ''.'' @ format fl"
  let ?s = "''kbom-'' @ spec_fingerprint8 (CACertDigest (Cluster kbom)) (ID kbom)"
  let ?p = "path_Join (outPath fl)
              (''kbom-'' @ spec_fingerprint8 (CACertDigest (Cluster kbom)) (ID kbom) @
               ''-'' @ ?ts @ ''.'' @ format fl)"
  have t: "CHR ''/'' \<notin> set ?t" "CHR ''-'' \<in> set ?t"
    using assms(3) Format_no_slash [of "GeneratedAt kbom"] by simp_all
  have "\<exists>d. ?p = d @ ?t"
  proof (cases "outPath fl = []")
    case True
    then have "?p = path_Clean (?s @ ?t)"
      by (simp add: path_Join_name)
    with path_Clean_keeps_suffix [OF t, of ?s] show ?thesis
      by simp
  next
    case False
    then have "?p = path_Clean ((outPath fl @ ''/'' @ ?s) @ ?t)"
      by (simp add: path_Join_name)
    with path_Clean_keeps_suffix [OF t, of "outPath fl @ ''/'' @ ?s"] show ?thesis
      by simp
  qed
  then have ext: "\<exists>d. ?p = d @ ''-'' @ ?ts @ ''.'' @ format fl"
    by simp
  have rest: "os_Create env ?p = None \<longrightarrow>
      getWriter env fl kbom w = (Inr (File ?p), create_file ?p w) \<and>
      fs (snd (getWriter env fl kbom w)) ?p = Some [] \<and>
      (format fl \<noteq> JSONFormat \<and> format fl \<noteq> YAMLFormat \<longrightarrow>
         printKBOM env fl kbom w =
           (Some (FormatNotSupported (format fl)),
            close_writer (File ?p) (create_file ?p w)) \<and>
         fs (snd (printKBOM env fl kbom w)) ?p = Some [])"
    using getWriter_file [OF assms(1,2), of env w]
    by (simp add: printKBOM_def close_writer_def create_file_def log_def split: option.splits)
  from ext rest show ?thesis
    unfolding Let_def by (rule conjI)
qed

theorem file_extension_is_format_verbatim_witness:
  "printKBOM ex_env (ex_flags\<lparr>output := ''file'', format := ''xml''\<rparr>) ex_kbom_short ex_world =
     (Some (FormatNotSupported ''xml''),
      close_writer (File ''out/kbom-abcdef12-2024-01-02-03-04-05.xml'')
        (create_file ''out/kbom-abcdef12-2024-01-02-03-04-05.xml'' ex_world)) \<and>
   fs (snd (printKBOM ex_env (ex_flags\<lparr>output := ''file'', format := ''xml''\<rparr>)
              ex_kbom_short ex_world))
     ''out/kbom-abcdef12-2024-01-02-03-04-05.xml'' = Some []"
proof -
  have f: "output (ex_flags\<lparr>output := ''file'', format := ''xml''\<rparr>) = FileOutput"
    by (simp add: FileOutput_def)
  have i: "8 \<le> length (ID ex_kbom_short)"
    by (simp add: ex_kbom_short_def)
  have s: "CHR ''/'' \<notin> set (format (ex_flags\<lparr>output := ''file'', format := ''xml''\<rparr>))"
    by simp
  have p: "path_Join (outPath (ex_flags\<lparr>output := ''file'', format := ''xml''\<rparr>))
             (''kbom-'' @
              spec_fingerprint8 (CACertDigest (Cluster ex_kbom_short)) (ID ex_kbom_short) @
              ''-'' @ Format_2006_01_02_15_04_05 (GeneratedAt ex_kbom_short) @ ''.'' @
              format (ex_flags\<lparr>output := ''file'', format := ''xml''\<rparr>))
           = ''out/kbom-abcdef12-2024-01-02-03-04-05.xml''"
    by (simp add: spec_fingerprint8_def Format_2006_01_02_15_04_05_def appendInt_def
        digits.simps digit_char_def ex_kbom_short_def ex_time_def ex_flags_def path_defs)
  have c: "os_Create ex_env ''out/kbom-abcdef12-2024-01-02-03-04-05.xml'' = None"
    and x: "format (ex_flags\<lparr>output := ''file'', format := ''xml''\<rparr>) \<noteq> JSONFormat"
           "format (ex_flags\<lparr>output := ''file'', format := ''xml''\<rparr>) \<noteq> YAMLFormat"
           "format (ex_flags\<lparr>output := ''file'', format := ''xml''\<rparr>) = ''xml''"
    by (simp_all add: ex_env_def JSONFormat_def YAMLFormat_def)
  from file_extension_is_format_verbatim [OF f i s, of ex_env ex_world] p c x
  show ?thesis by (simp add: Let_def close_writer_def create_file_def log_def)
qed

text \<open>
  Claim C10, as stated for every format value, fails: \<^verbatim>\<open>path.Join\<close> cleans the
  path, so the format \<open>a/../../b\<close> makes the run create the file \<open>b\<close>, outside the
  output directory and with no extension at all.
\<close>

theorem file_extension_any_format_counterexample:
  "printKBOM ex_env (ex_flags\<lparr>output := ''file'', format := ''a/../../b''\<rparr>) ex_kbom_short
     ex_world =
     (Some (FormatNotSupported ''a/../../b''),
      close_writer (File ''b'') (create_file ''b'' ex_world)) \<and>
   fs (snd (printKBOM ex_env (ex_flags\<lparr>output := ''file'', format := ''a/../../b''\<rparr>)
              ex_kbom_short ex_world)) = [''b'' \<mapsto> []]"
proof -
  have n: "path_Join ''out'' ''kbom-abcdef12-2024-01-02-03-04-05.a/../../b'' = ''b''"
    by (simp add: path_defs)
  have g: "getWriter ex_env (ex_flags\<lparr>output := ''file'', format := ''a/../../b''\<rparr>)
             ex_kbom_short ex_world = (Inr (File ''b''), create_file ''b'' ex_world)"
    by (simp add: getWriter_def Let_def n Format_2006_01_02_15_04_05_def appendInt_def
        digits.simps digit_char_def ex_kbom_short_def ex_time_def ex_flags_def ex_env_def
        StdOutput_def FileOutput_def)
  have r: "printKBOM ex_env (ex_flags\<lparr>output := ''file'', format := ''a/../../b''\<rparr>)
             ex_kbom_short ex_world =
           (Some (FormatNotSupported ''a/../../b''),
            close_writer (File ''b'') (create_file ''b'' ex_world))"
    by (simp add: printKBOM_def g JSONFormat_def YAMLFormat_def)
  have f: "fs (close_writer (File ''b'') (create_file ''b'' ex_world)) = [''b'' \<mapsto> []]"
    by (simp add: close_writer_def create_file_def log_def ex_world_def)
  from r f show ?thesis
    by simp
qed

section \<open>Closing standard output\<close>

text \<open>
  Claim C6, as the code has it. When the output target is \<open>stdout\<close>, \<^verbatim>\<open>getWriter\<close>
  returns \<^verbatim>\<open>os.Stdout\<close> and the deferred \<^verbatim>\<open>writer.Close()\<close> closes it on every
  return of \<^verbatim>\<open>printKBOM\<close>: whether the encoder succeeds or fails and whether the format
  is supported or not, standard output is closed afterwards, and the close is the last
  event of the call and the only close of standard output in it.
\<close>

theorem stdout_closed_on_every_exit:
  assumes "output fl = StdOutput"
  shows "out_closed (snd (printKBOM env fl kbom w)) \<and>
         fst (printKBOM env fl kbom w) =
           (if format fl = JSONFormat then snd (json_Encode env [] ''  '' kbom)
            else if format fl = YAMLFormat then snd (yaml_Encode env kbom)
            else Some (FormatNotSupported (format fl))) \<and>
         (\<exists>es. trace (snd (printKBOM env fl kbom w)) = trace w @ es @ [EvClose Stdout] \<and>
               EvClose Stdout \<notin> set es)"
  using assms
  by (auto simp: printKBOM_def getWriter_def write_bytes_def close_writer_def log_def Let_def
      split: prod.splits sum.splits)

theorem stdout_closed_on_every_exit_witness:
  "\<not> out_closed ex_world \<and>
   printKBOM ex_env_encode_fails ex_flags ex_kbom_short ex_world =
     (Some (External ''json: unsupported value''), close_writer Stdout ex_world) \<and>
   out_closed (snd (printKBOM ex_env_encode_fails ex_flags ex_kbom_short ex_world))"
proof -
  have s: "output ex_flags = StdOutput"
    by (simp add: ex_flags_def StdOutput_def)
  have p: "printKBOM ex_env_encode_fails ex_flags ex_kbom_short ex_world =
     (Some (External ''json: unsupported value''), close_writer Stdout ex_world)"
    by (simp add: printKBOM_def getWriter_def write_bytes_def ex_env_encode_fails_def
        ex_flags_def StdOutput_def JSONFormat_def)
  have o: "\<not> out_closed ex_world"
    by (simp add: ex_world_def)
  from stdout_closed_on_every_exit [OF s, of ex_env_encode_fails ex_kbom_short ex_world] p o
  show ?thesis by simp
qed

text \<open>
  Claim C6, as stated, fails: the successful run to standard output starts with the
  stream open and ends with it closed, the close being the last thing the run does.
\<close>

theorem stdout_never_closed_counterexample:
  "\<not> out_closed ex_world \<and> out_closed (snd (runGenerate ex_env ex_flags ex_world)) \<and>
   fst (runGenerate ex_env ex_flags ex_world) = None \<and>
   last (trace (snd (runGenerate ex_env ex_flags ex_world))) = EvClose Stdout"
  by (simp add: runGenerate_def runGenerate_kbom_def printKBOM_def getWriter_def
      write_bytes_def close_writer_def log_def ex_defs StdOutput_def JSONFormat_def)

end
